theory Spec2Isabelle
  imports
    Main
    "HOL-Library.AList"
    "HOL-Library.Multiset"
    "HOL-Library.Sublist"
    "HOL-Library.Char_ord"
    "HOL-Library.List_Lexorder"
    "HOL-Library.Product_Lexorder"
begin

section \<open>Data frames\<close>

text \<open>
  The dashboard of \<^verbatim>\<open>app.py\<close> works on pandas data frames. A cell is a missing value
  (\<^verbatim>\<open>NaN\<close>, \<^verbatim>\<open>NaT\<close>), a number, a text or a timestamp. Numbers are integers: the
  counts of the data set are integers, and a float column that holds integral values
  compares and subtracts as the integers do. A timestamp is the integer pandas stores for it.

  A frame has its column labels, in order, and its rows, in order; a row associates column
  labels with cells, and a label that a row does not carry reads as missing, which is how
  \<^verbatim>\<open>read_csv\<close> fills a short line. The row labels of pandas are left out: \<^verbatim>\<open>read_csv\<close> numbers
  the rows, every operation below carries a row's label along with the row, and the one
  assignment of a computed column is to the frame the column was computed from.
\<close>

datatype cell = NA | Num int | Str string | TS int

type_synonym row = "(string \<times> cell) list"

record frame =
  columns :: "string list"
  rows :: "row list"

datatype error = FileNotFoundError | KeyError string | ValueError | TypeError

definition get :: "row \<Rightarrow> string \<Rightarrow> cell" where
  "get r c = (case map_of r c of None \<Rightarrow> NA | Some v \<Rightarrow> v)"

text \<open>\<^verbatim>\<open>df[c]\<close>: the column as a series, \<^verbatim>\<open>KeyError\<close> when the frame has no such column.\<close>

definition getitem :: "frame \<Rightarrow> string \<Rightarrow> error + cell list" where
  "getitem t c =
     (if c \<in> set (columns t) then Inr (map (\<lambda>r. get r c) (rows t)) else Inl (KeyError c))"

text \<open>
  \<^verbatim>\<open>df[c] = series\<close>, for a series computed from \<^verbatim>\<open>df\<close> itself (one value per row, in
  row order), and \<^verbatim>\<open>df[c] = scalar\<close>. A new label goes to the end of the columns.
\<close>

definition setitem :: "frame \<Rightarrow> string \<Rightarrow> cell list \<Rightarrow> frame" where
  "setitem t c vs =
     \<lparr>columns = (if c \<in> set (columns t) then columns t else columns t @ [c]),
      rows = map (\<lambda>(r, v). AList.update c v r) (zip (rows t) vs)\<rparr>"

definition setitem_scalar :: "frame \<Rightarrow> string \<Rightarrow> cell \<Rightarrow> frame" where
  "setitem_scalar t c v =
     \<lparr>columns = (if c \<in> set (columns t) then columns t else columns t @ [c]),
      rows = map (AList.update c v) (rows t)\<rparr>"

subsection \<open>\<^verbatim>\<open>pd.to_datetime\<close>\<close>

text \<open>
  The parser of textual dates belongs to pandas; it is the parameter \<open>parse\<close>, which
  gives no timestamp for a text it rejects. A missing value becomes \<^verbatim>\<open>NaT\<close>, a number is
  taken as the stored integer of the timestamp, a timestamp stays. One rejected text makes
  the whole conversion raise \<^verbatim>\<open>ValueError\<close>.
\<close>

fun to_datetime1 :: "(string \<Rightarrow> int option) \<Rightarrow> cell \<Rightarrow> cell option" where
  "to_datetime1 parse NA = Some NA"
| "to_datetime1 parse (Num n) = Some (TS n)"
| "to_datetime1 parse (TS n) = Some (TS n)"
| "to_datetime1 parse (Str s) = map_option TS (parse s)"

definition to_datetime :: "(string \<Rightarrow> int option) \<Rightarrow> cell list \<Rightarrow> error + cell list" where
  "to_datetime parse vs =
     (case those (map (to_datetime1 parse) vs) of None \<Rightarrow> Inl ValueError | Some ts \<Rightarrow> Inr ts)"

subsection \<open>\<^verbatim>\<open>sort_values\<close>\<close>

text \<open>
  Sorting by several columns is stable and lexicographic in the listed columns, ascending,
  with missing values last. Within a column numbers are ordered as integers, texts by their
  characters, timestamps by time; a column that mixes numbers and texts has the numbers
  first. A missing sort column raises \<^verbatim>\<open>KeyError\<close>, the first one listed.
\<close>

fun cell_key :: "cell \<Rightarrow> nat \<times> int \<times> string" where
  "cell_key (Num n) = (0, n, [])"
| "cell_key (Str s) = (1, 0, s)"
| "cell_key (TS n) = (2, n, [])"
| "cell_key NA = (3, 0, [])"

definition row_key :: "string list \<Rightarrow> row \<Rightarrow> (nat \<times> int \<times> string) list" where
  "row_key cols r = map (\<lambda>c. cell_key (get r c)) cols"

definition sort_values :: "frame \<Rightarrow> string list \<Rightarrow> error + frame" where
  "sort_values t cols =
     (case filter (\<lambda>c. c \<notin> set (columns t)) cols of
        c # _ \<Rightarrow> Inl (KeyError c)
      | [] \<Rightarrow> Inr (t\<lparr>rows := sort_key (row_key cols) (rows t)\<rparr>))"

subsection \<open>\<^verbatim>\<open>groupby(k)[c].diff()\<close> and \<^verbatim>\<open>fillna\<close>\<close>

text \<open>
  Subtraction of two cells of a numeric column: a missing operand gives a missing result.
\<close>

fun cell_sub :: "cell \<Rightarrow> cell \<Rightarrow> cell" where
  "cell_sub (Num a) (Num b) = Num (a - b)"
| "cell_sub _ _ = NA"

text \<open>
  The difference of each value to the previous value of its group, in frame order. \<open>prev\<close>
  holds the last value seen of every group so far. The first row of a group has no previous
  value and gets a missing one; so does a row whose group key is missing, which \<^verbatim>\<open>groupby\<close>
  leaves out of every group.
\<close>

fun groupby_diff :: "(cell \<times> cell) list \<Rightarrow> cell list \<Rightarrow> cell list \<Rightarrow> cell list" where
  "groupby_diff prev (k # ks) (v # vs) =
     (if k = NA then NA # groupby_diff prev ks vs
      else (case map_of prev k of None \<Rightarrow> NA | Some p \<Rightarrow> cell_sub v p)
             # groupby_diff ((k, v) # prev) ks vs)"
| "groupby_diff prev _ _ = []"

fun numeric :: "cell \<Rightarrow> bool" where
  "numeric NA = True"
| "numeric (Num n) = True"
| "numeric (Str s) = False"
| "numeric (TS n) = False"

text \<open>
  \<^verbatim>\<open>df.groupby(k)[c].diff()\<close>: both columns must exist, and the values must subtract; a
  text among them raises \<^verbatim>\<open>TypeError\<close>.
\<close>

definition groupby_diff_col :: "frame \<Rightarrow> string \<Rightarrow> string \<Rightarrow> error + cell list" where
  "groupby_diff_col t k c =
     (case getitem t k of Inl e \<Rightarrow> Inl e
      | Inr ks \<Rightarrow>
          (case getitem t c of Inl e \<Rightarrow> Inl e
           | Inr vs \<Rightarrow>
               if list_all numeric vs then Inr (groupby_diff [] ks vs) else Inl TypeError))"

definition fillna :: "cell \<Rightarrow> cell list \<Rightarrow> cell list" where
  "fillna d vs = map (\<lambda>v. if v = NA then d else v) vs"

section \<open>The loader\<close>

text \<open>
  Lines 31 and 32 of \<^verbatim>\<open>load_data\<close>: sort by country and date, then set \<^verbatim>\<open>New_Cases\<close> to
  the difference of \<^verbatim>\<open>Confirmed\<close> within each country, zero where there is none.
\<close>

definition derive_new_cases :: "frame \<Rightarrow> error + frame" where
  "derive_new_cases t0 =
     (case sort_values t0 [''Country'', ''Date''] of Inl e \<Rightarrow> Inl e
      | Inr t \<Rightarrow>
          (case groupby_diff_col t ''Country'' ''Confirmed'' of Inl e \<Rightarrow> Inl e
           | Inr d \<Rightarrow> Inr (setitem t ''New_Cases'' (fillna (Num 0) d))))"

text \<open>Lines 29 to 34: make sure that \<^verbatim>\<open>New_Cases\<close> exists.\<close>

definition ensure_new_cases :: "frame \<Rightarrow> error + frame" where
  "ensure_new_cases t =
     (if ''New_Cases'' \<notin> set (columns t) then
        if ''Confirmed'' \<in> set (columns t) then derive_new_cases t
        else Inr (setitem_scalar t ''New_Cases'' (Num 0))
      else Inr t)"

text \<open>
  \<^verbatim>\<open>load_data\<close>. The file is the frame \<^verbatim>\<open>read_csv\<close> makes of it, or nothing when it cannot
  be read.
\<close>

definition load_data :: "(string \<Rightarrow> int option) \<Rightarrow> frame option \<Rightarrow> error + frame" where
  "load_data parse file =
     (case file of None \<Rightarrow> Inl FileNotFoundError
      | Some t \<Rightarrow>
          (case getitem t ''Date'' of Inl e \<Rightarrow> Inl e
           | Inr ds \<Rightarrow>
               (case to_datetime parse ds of Inl e \<Rightarrow> Inl e
                | Inr ts \<Rightarrow> ensure_new_cases (setitem t ''Date'' ts))))"

section \<open>The filter\<close>

text \<open>
  \<^verbatim>\<open>series == country\<close>: a missing value equals nothing, not even a missing value.
\<close>

definition series_eq :: "cell list \<Rightarrow> cell \<Rightarrow> bool list" where
  "series_eq vs c = map (\<lambda>v. v \<noteq> NA \<and> v = c) vs"

text \<open>
  \<^verbatim>\<open>series >= timestamp\<close> and \<^verbatim>\<open>series <= timestamp\<close>: a missing time compares false; a
  column that holds something else than times raises \<^verbatim>\<open>TypeError\<close>.
\<close>

fun timelike :: "cell \<Rightarrow> bool" where
  "timelike NA = True"
| "timelike (TS n) = True"
| "timelike (Num n) = False"
| "timelike (Str s) = False"

fun ts_ge :: "int \<Rightarrow> cell \<Rightarrow> bool" where
  "ts_ge b (TS d) = (b \<le> d)"
| "ts_ge b _ = False"

fun ts_le :: "int \<Rightarrow> cell \<Rightarrow> bool" where
  "ts_le b (TS d) = (d \<le> b)"
| "ts_le b _ = False"

definition series_ge :: "cell list \<Rightarrow> int \<Rightarrow> error + bool list" where
  "series_ge vs b = (if list_all timelike vs then Inr (map (ts_ge b) vs) else Inl TypeError)"

definition series_le :: "cell list \<Rightarrow> int \<Rightarrow> error + bool list" where
  "series_le vs b = (if list_all timelike vs then Inr (map (ts_le b) vs) else Inl TypeError)"

text \<open>\<^verbatim>\<open>df[mask]\<close>: a new frame of the rows whose mask is true, in order.\<close>

definition select_rows :: "frame \<Rightarrow> bool list \<Rightarrow> frame" where
  "select_rows t m = t\<lparr>rows := map snd (filter fst (zip m (rows t)))\<rparr>"

text \<open>
  Lines 73 to 77. The three masks are computed in the order of the source, so that the
  first missing column is the one reported.
\<close>

definition filter_df :: "frame \<Rightarrow> cell \<Rightarrow> int \<Rightarrow> int \<Rightarrow> error + frame" where
  "filter_df t country lower upper =
     (case getitem t ''Country'' of Inl e \<Rightarrow> Inl e
      | Inr cs \<Rightarrow>
          (case getitem t ''Date'' of Inl e \<Rightarrow> Inl e
           | Inr ds \<Rightarrow>
               (case series_ge ds lower of Inl e \<Rightarrow> Inl e
                | Inr ge \<Rightarrow>
                    (case series_le ds upper of Inl e \<Rightarrow> Inl e
                     | Inr le \<Rightarrow>
                         Inr (select_rows t
                               (map (\<lambda>(a, b, c). a \<and> b \<and> c)
                                 (zip (series_eq cs country) (zip ge le))))))))"

section \<open>The headline numbers\<close>

text \<open>
  \<^verbatim>\<open>max\<close> and \<^verbatim>\<open>mean\<close> of a series skip missing values and are missing themselves when
  nothing is left. A text or a timestamp in a column of counts is outside the data set's
  format; the aggregate, or the \<^verbatim>\<open>int\<close> around it, raises there, and the model raises
  \<^verbatim>\<open>TypeError\<close>.
\<close>

fun nums :: "cell list \<Rightarrow> int list" where
  "nums [] = []"
| "nums (Num n # vs) = n # nums vs"
| "nums (_ # vs) = nums vs"

fun stamps :: "cell list \<Rightarrow> int list" where
  "stamps [] = []"
| "stamps (TS n # vs) = n # stamps vs"
| "stamps (_ # vs) = stamps vs"

fun maximum :: "int list \<Rightarrow> int option" where
  "maximum [] = None"
| "maximum (n # ns) = Some (fold max ns n)"

definition series_max :: "cell list \<Rightarrow> error + int option" where
  "series_max vs = (if list_all numeric vs then Inr (maximum (nums vs)) else Inl TypeError)"

text \<open>
  \<^verbatim>\<open>int(series.mean())\<close>: the mean is the sum over the count, and \<^verbatim>\<open>int\<close> cuts the
  fraction off towards zero.
\<close>

definition trunc_div :: "int \<Rightarrow> int \<Rightarrow> int" where
  "trunc_div s n = (if 0 \<le> s then s div n else - ((- s) div n))"

definition series_mean_int :: "cell list \<Rightarrow> error + int option" where
  "series_mean_int vs =
     (if list_all numeric vs then
        Inr (if nums vs = [] then None
             else Some (trunc_div (sum_list (nums vs)) (int (length (nums vs)))))
      else Inl TypeError)"

text \<open>\<^verbatim>\<open>int(x)\<close> of a missing value raises \<^verbatim>\<open>ValueError\<close>.\<close>

definition py_int :: "int option \<Rightarrow> error + int" where
  "py_int x = (case x of None \<Rightarrow> Inl ValueError | Some n \<Rightarrow> Inr n)"

text \<open>
  \<^verbatim>\<open>df["Date"].max().strftime(...)\<close>: the latest time; \<^verbatim>\<open>NaT\<close> has no \<^verbatim>\<open>strftime\<close> and
  raises \<^verbatim>\<open>ValueError\<close>. The result is the timestamp that is then printed.
\<close>

definition series_max_time :: "cell list \<Rightarrow> error + int option" where
  "series_max_time vs = (if list_all timelike vs then Inr (maximum (stamps vs)) else Inl TypeError)"

record kpi =
  total_cases :: int
  max_daily :: int
  avg_daily :: int
  last_date :: int

definition bind :: "error + 'a \<Rightarrow> ('a \<Rightarrow> error + 'b) \<Rightarrow> error + 'b" where
  "bind m f = (case m of Inl e \<Rightarrow> Inl e | Inr x \<Rightarrow> f x)"

text \<open>Lines 96 to 99, in their order.\<close>

definition kpi_metrics :: "frame \<Rightarrow> error + kpi" where
  "kpi_metrics v =
     bind (if ''Confirmed'' \<in> set (columns v)
           then bind (getitem v ''Confirmed'') (\<lambda>s. bind (series_max s) py_int)
           else Inr 0) (\<lambda>total.
     bind (bind (getitem v ''New_Cases'') (\<lambda>s. bind (series_max s) py_int)) (\<lambda>mx.
     bind (bind (getitem v ''New_Cases'') (\<lambda>s. bind (series_mean_int s) py_int)) (\<lambda>avg.
     bind (bind (getitem v ''Date'') (\<lambda>s. bind (series_max_time s) py_int)) (\<lambda>last.
     Inr \<lparr>total_cases = total, max_daily = mx, avg_daily = avg, last_date = last\<rparr>))))"

section \<open>The script on a store of objects\<close>

text \<open>
  For what an operation does to an object that several variables may hold, the frames,
  series and masks of the script are objects on a store, a variable holds the address of its
  object, and \<open>fresh\<close> is the next address not in use. \<^verbatim>\<open>df[c]\<close>, the comparisons, \<^verbatim>\<open>&\<close> and
  \<^verbatim>\<open>df[mask]\<close> make a new object each and write to none. \<^verbatim>\<open>df[c] = series\<close>, the assignment
  of lines 26, 32 and 34, writes to the frame it is applied to. An address that holds no
  object of the kind the operation takes raises \<^verbatim>\<open>TypeError\<close>.
\<close>

datatype obj = Frame frame | Series "cell list" | Mask "bool list"

record store =
  heap :: "nat \<Rightarrow> obj option"
  fresh :: nat

definition alloc :: "store \<Rightarrow> obj \<Rightarrow> nat \<times> store" where
  "alloc s x = (fresh s, s\<lparr>heap := (heap s)(fresh s \<mapsto> x), fresh := Suc (fresh s)\<rparr>)"

definition ref_getitem :: "store \<Rightarrow> nat \<Rightarrow> string \<Rightarrow> error + nat \<times> store" where
  "ref_getitem s a c =
     (case heap s a of
        Some (Frame t) \<Rightarrow> (case getitem t c of Inl e \<Rightarrow> Inl e | Inr vs \<Rightarrow> Inr (alloc s (Series vs)))
      | _ \<Rightarrow> Inl TypeError)"

definition ref_setitem :: "store \<Rightarrow> nat \<Rightarrow> string \<Rightarrow> nat \<Rightarrow> error + store" where
  "ref_setitem s a c v =
     (case (heap s a, heap s v) of
        (Some (Frame t), Some (Series vs)) \<Rightarrow> Inr (s\<lparr>heap := (heap s)(a \<mapsto> Frame (setitem t c vs))\<rparr>)
      | _ \<Rightarrow> Inl TypeError)"

definition ref_eq :: "store \<Rightarrow> nat \<Rightarrow> cell \<Rightarrow> error + nat \<times> store" where
  "ref_eq s a c =
     (case heap s a of
        Some (Series vs) \<Rightarrow> Inr (alloc s (Mask (series_eq vs c)))
      | _ \<Rightarrow> Inl TypeError)"

definition ref_ge :: "store \<Rightarrow> nat \<Rightarrow> int \<Rightarrow> error + nat \<times> store" where
  "ref_ge s a b =
     (case heap s a of
        Some (Series vs) \<Rightarrow> (case series_ge vs b of Inl e \<Rightarrow> Inl e | Inr m \<Rightarrow> Inr (alloc s (Mask m)))
      | _ \<Rightarrow> Inl TypeError)"

definition ref_le :: "store \<Rightarrow> nat \<Rightarrow> int \<Rightarrow> error + nat \<times> store" where
  "ref_le s a b =
     (case heap s a of
        Some (Series vs) \<Rightarrow> (case series_le vs b of Inl e \<Rightarrow> Inl e | Inr m \<Rightarrow> Inr (alloc s (Mask m)))
      | _ \<Rightarrow> Inl TypeError)"

definition ref_and :: "store \<Rightarrow> nat \<Rightarrow> nat \<Rightarrow> error + nat \<times> store" where
  "ref_and s a b =
     (case (heap s a, heap s b) of
        (Some (Mask x), Some (Mask y)) \<Rightarrow> Inr (alloc s (Mask (map (\<lambda>(p, q). p \<and> q) (zip x y))))
      | _ \<Rightarrow> Inl TypeError)"

definition ref_select :: "store \<Rightarrow> nat \<Rightarrow> nat \<Rightarrow> error + nat \<times> store" where
  "ref_select s a m =
     (case (heap s a, heap s m) of
        (Some (Frame t), Some (Mask x)) \<Rightarrow> Inr (alloc s (Frame (select_rows t x)))
      | _ \<Rightarrow> Inl TypeError)"

text \<open>
  Lines 73 to 77 on the store, in Python's order of evaluation: the operands of each \<^verbatim>\<open>&\<close>
  from left to right, then the \<^verbatim>\<open>&\<close>, then the selection. \<open>tbl\<close> is the address \<^verbatim>\<open>df_all\<close>
  holds; the result is the address of the view, which \<^verbatim>\<open>df\<close> is bound to, and the store after.
\<close>

definition filter_step :: "store \<Rightarrow> nat \<Rightarrow> cell \<Rightarrow> int \<Rightarrow> int \<Rightarrow> error + nat \<times> store" where
  "filter_step s tbl country lower upper =
     bind (ref_getitem s tbl ''Country'') (\<lambda>(c, s1).
     bind (ref_eq s1 c country) (\<lambda>(m1, s2).
     bind (ref_getitem s2 tbl ''Date'') (\<lambda>(d1, s3).
     bind (ref_ge s3 d1 lower) (\<lambda>(m2, s4).
     bind (ref_and s4 m1 m2) (\<lambda>(m12, s5).
     bind (ref_getitem s5 tbl ''Date'') (\<lambda>(d2, s6).
     bind (ref_le s6 d2 upper) (\<lambda>(m3, s7).
     bind (ref_and s7 m12 m3) (\<lambda>(m, s8).
     ref_select s8 tbl m))))))))"

section \<open>One interaction\<close>

text \<open>The view and its headline numbers, as one interaction computes them.\<close>

definition view_and_summary :: "frame \<Rightarrow> cell \<Rightarrow> int \<Rightarrow> int \<Rightarrow> error + frame \<times> kpi" where
  "view_and_summary t country lower upper =
     bind (filter_df t country lower upper) (\<lambda>v. bind (kpi_metrics v) (\<lambda>k. Inr (v, k)))"

section \<open>Vocabulary of the properties\<close>

text \<open>
  A row matches a selection when its country is the selected one and its date lies between
  the bounds, both included.
\<close>

definition matches :: "cell \<Rightarrow> int \<Rightarrow> int \<Rightarrow> row \<Rightarrow> bool" where
  "matches country lower upper r =
     (get r ''Country'' \<noteq> NA \<and> get r ''Country'' = country
      \<and> ts_ge lower (get r ''Date'') \<and> ts_le upper (get r ''Date''))"

text \<open>
  A frame is dated when it has a \<^verbatim>\<open>Date\<close> column of times, missing ones included. Every
  frame that \<^verbatim>\<open>load_data\<close> returns is.
\<close>

definition dated :: "frame \<Rightarrow> bool" where
  "dated t = (''Date'' \<in> set (columns t) \<and> list_all (\<lambda>r. timelike (get r ''Date'')) (rows t))"

subsection \<open>Sample data\<close>

definition ex_table :: frame where
  "ex_table =
     \<lparr>columns = [''Country'', ''Date'', ''Confirmed'', ''New_Cases''],
      rows =
        [[(''Country'', Str ''Kenya''), (''Date'', TS 1), (''Confirmed'', Num 10), (''New_Cases'', Num 0)],
         [(''Country'', Str ''Kenya''), (''Date'', TS 2), (''Confirmed'', Num 15), (''New_Cases'', Num 5)],
         [(''Country'', Str ''Kenya''), (''Date'', TS 3), (''Confirmed'', Num 15), (''New_Cases'', Num 0)],
         [(''Country'', Str ''Kenya''), (''Date'', TS 4), (''Confirmed'', Num 22), (''New_Cases'', Num 7)],
         [(''Country'', Str ''Peru''), (''Date'', TS 2), (''Confirmed'', Num 3), (''New_Cases'', Num 0)],
         [(''Country'', Str ''Peru''), (''Date'', TS 3), (''Confirmed'', Num 9), (''New_Cases'', Num 6)]]\<rparr>"

definition ex_view :: frame where
  "ex_view =
     \<lparr>columns = [''Country'', ''Date'', ''Confirmed'', ''New_Cases''],
      rows =
        [[(''Country'', Str ''Kenya''), (''Date'', TS 2), (''Confirmed'', Num 15), (''New_Cases'', Num 5)],
         [(''Country'', Str ''Kenya''), (''Date'', TS 3), (''Confirmed'', Num 15), (''New_Cases'', Num 0)]]\<rparr>"

text \<open>
  Every date of the file is one that \<^verbatim>\<open>to_datetime\<close> accepts, and the frame with its dates
  converted, which is what \<^verbatim>\<open>load_data\<close> holds after line 26.
\<close>

definition dates_parse :: "(string \<Rightarrow> int option) \<Rightarrow> frame \<Rightarrow> bool" where
  "dates_parse parse t = list_all (\<lambda>r. to_datetime1 parse (get r ''Date'') \<noteq> None) (rows t)"

definition with_dates :: "(string \<Rightarrow> int option) \<Rightarrow> frame \<Rightarrow> frame" where
  "with_dates parse t =
     setitem t ''Date''
       (map (\<lambda>r. case to_datetime1 parse (get r ''Date'') of None \<Rightarrow> NA | Some v \<Rightarrow> v) (rows t))"

text \<open>Files for the loader, and a parser that knows four dates.\<close>

definition ex_parse :: "string \<Rightarrow> int option" where
  "ex_parse = map_of [(''2020-03-01'', 1), (''2020-03-02'', 2), (''2020-03-03'', 3), (''2020-03-04'', 4)]"

definition ex_no_confirmed :: frame where
  "ex_no_confirmed =
     \<lparr>columns = [''Country'', ''Date'', ''Deaths''],
      rows = [[(''Country'', Str ''Kenya''), (''Date'', Str ''2020-03-02''), (''Deaths'', Num 4)],
              [(''Country'', Str ''Kenya''), (''Date'', Str ''2020-03-01''), (''Deaths'', Num 1)]]\<rparr>"

definition ex_no_country :: frame where
  "ex_no_country =
     \<lparr>columns = [''Date'', ''New_Cases''],
      rows = [[(''Date'', Str ''2020-03-01''), (''New_Cases'', Num 4)],
              [(''Date'', Str ''2020-03-02''), (''New_Cases'', Num 1)]]\<rparr>"

definition ex_no_country_confirmed :: frame where
  "ex_no_country_confirmed =
     \<lparr>columns = [''Date'', ''Confirmed''],
      rows = [[(''Date'', Str ''2020-03-01''), (''Confirmed'', Num 4)],
              [(''Date'', Str ''2020-03-02''), (''Confirmed'', Num 5)]]\<rparr>"

definition ex_no_date :: frame where
  "ex_no_date =
     \<lparr>columns = [''Country'', ''Confirmed''],
      rows = [[(''Country'', Str ''Kenya''), (''Confirmed'', Num 4)]]\<rparr>"




definition ex_unsorted :: frame where
  "ex_unsorted =
     \<lparr>columns = [''Country'', ''Date'', ''Confirmed''],
      rows =
        [[(''Country'', Str ''Peru''), (''Date'', TS 3), (''Confirmed'', Num 9)],
         [(''Country'', Str ''Kenya''), (''Date'', TS 2), (''Confirmed'', Num 15)],
         [(''Country'', Str ''Peru''), (''Date'', TS 2), (''Confirmed'', Num 3)],
         [(''Country'', Str ''Kenya''), (''Date'', TS 1), (''Confirmed'', Num 10)]]\<rparr>"

definition ex_derived :: frame where
  "ex_derived =
     \<lparr>columns = [''Country'', ''Date'', ''Confirmed'', ''New_Cases''],
      rows =
        [[(''Country'', Str ''Kenya''), (''Date'', TS 1), (''Confirmed'', Num 10), (''New_Cases'', Num 0)],
         [(''Country'', Str ''Kenya''), (''Date'', TS 2), (''Confirmed'', Num 15), (''New_Cases'', Num 5)],
         [(''Country'', Str ''Peru''), (''Date'', TS 2), (''Confirmed'', Num 3), (''New_Cases'', Num 0)],
         [(''Country'', Str ''Peru''), (''Date'', TS 3), (''Confirmed'', Num 9), (''New_Cases'', Num 6)]]\<rparr>"

text \<open>
  A file with a line whose date is blank, the table loaded from it, and the view of its one
  country over all its dates.
\<close>

definition ex_blank_file :: frame where
  "ex_blank_file =
     \<lparr>columns = [''Country'', ''Date'', ''Confirmed''],
      rows =
        [[(''Country'', Str ''Kenya''), (''Date'', NA), (''Confirmed'', Num 12)],
         [(''Country'', Str ''Kenya''), (''Date'', Str ''2020-03-01''), (''Confirmed'', Num 10)]]\<rparr>"

definition ex_blank :: frame where
  "ex_blank =
     \<lparr>columns = [''Country'', ''Date'', ''Confirmed'', ''New_Cases''],
      rows =
        [[(''Country'', Str ''Kenya''), (''Date'', TS 1), (''Confirmed'', Num 10), (''New_Cases'', Num 0)],
         [(''Country'', Str ''Kenya''), (''Date'', NA), (''Confirmed'', Num 12), (''New_Cases'', Num 2)]]\<rparr>"

definition ex_blank_view :: frame where
  "ex_blank_view =
     \<lparr>columns = [''Country'', ''Date'', ''Confirmed'', ''New_Cases''],
      rows =
        [[(''Country'', Str ''Kenya''), (''Date'', TS 1), (''Confirmed'', Num 10), (''New_Cases'', Num 0)]]\<rparr>"

text \<open>A store that holds the sample table at address 0.\<close>

definition ex_store :: store where
  "ex_store = \<lparr>heap = [0 \<mapsto> Frame ex_table], fresh = 1\<rparr>"

section \<open>The filter selects the matching rows\<close>

lemmas ex_defs = ex_table_def ex_view_def filter_df_def getitem_def get_def series_eq_def
  series_ge_def series_le_def select_rows_def dated_def

lemmas load_defs = load_data_def getitem_def get_def to_datetime_def setitem_def
  setitem_scalar_def ensure_new_cases_def derive_new_cases_def sort_values_def row_key_def
  groupby_diff_col_def fillna_def dates_parse_def ex_parse_def

lemmas kpi_defs = view_and_summary_def bind_def kpi_metrics_def series_max_def
  series_mean_int_def series_max_time_def py_int_def trunc_div_def

lemma select_by_masks:
  "map snd (filter fst
     (zip (map (\<lambda>(a, b, c). a \<and> b \<and> c)
            (zip (series_eq (map (\<lambda>r. get r ''Country'') xs) country)
              (zip (map (ts_ge lower) (map (\<lambda>r. get r ''Date'') xs))
                   (map (ts_le upper) (map (\<lambda>r. get r ''Date'') xs)))))
          xs))
   = filter (matches country lower upper) xs"
  by (induction xs) (auto simp: series_eq_def matches_def)

lemma filter_df_matches:
  assumes "''Country'' \<in> set (columns t)" and "dated t"
  shows "filter_df t country lower upper
           = Inr (t\<lparr>rows := filter (matches country lower upper) (rows t)\<rparr>)"
proof -
  have tl: "list_all timelike (map (\<lambda>r. get r ''Date'') (rows t))"
    using assms(2) by (simp add: dated_def list_all_iff)
  have d: "''Date'' \<in> set (columns t)"
    using assms(2) by (simp add: dated_def)
  show ?thesis
    unfolding filter_df_def getitem_def series_ge_def series_le_def select_rows_def
    using assms(1) d tl by (simp only: if_True sum.case select_by_masks)
qed

lemma filter_df_defined:
  assumes "filter_df t country lower upper = Inr v"
  shows "''Country'' \<in> set (columns t) \<and> dated t"
  using assms
  by (auto simp: filter_df_def getitem_def dated_def series_ge_def series_le_def list_all_iff
      split: if_splits sum.splits)

lemma matchesD:
  "matches c lo hi r \<Longrightarrow> get r ''Country'' = c \<and> (\<exists>d. get r ''Date'' = TS d \<and> lo \<le> d \<and> d \<le> hi)"
  by (cases "get r ''Date''") (auto simp: matches_def)

text \<open>
  Claim C10. Whenever the filter returns a view, the rows of the view are a subsequence of
  the rows of the table, in the table's order, the columns are the table's, and every row of
  the view has the selected country and a date between the two bounds, both included.
\<close>

theorem filter_df_is_ordered_selection:
  assumes "filter_df t country lower upper = Inr v"
  shows "subseq (rows v) (rows t) \<and> columns v = columns t
      \<and> (\<forall>r \<in> set (rows v). get r ''Country'' = country
            \<and> (\<exists>d. get r ''Date'' = TS d \<and> lower \<le> d \<and> d \<le> upper))"
proof -
  from filter_df_defined [OF assms] filter_df_matches [of t country lower upper] assms
  have v: "v = t\<lparr>rows := filter (matches country lower upper) (rows t)\<rparr>" by simp
  show ?thesis unfolding v using matchesD by auto
qed

theorem filter_df_is_ordered_selection_witness:
  "filter_df ex_table (Str ''Kenya'') 2 3 = Inr ex_view
   \<and> (subseq (rows ex_view) (rows ex_table) \<and> columns ex_view = columns ex_table
      \<and> list_all (\<lambda>r. get r ''Country'' = Str ''Kenya''
            \<and> (\<exists>d. get r ''Date'' = TS d \<and> 2 \<le> d \<and> d \<le> 3)) (rows ex_view))"
proof -
  have h: "filter_df ex_table (Str ''Kenya'') 2 3 = Inr ex_view"
    by (simp add: ex_defs)
  from h filter_df_is_ordered_selection [OF h] show ?thesis by (simp add: list_all_iff)
qed

text \<open>
  Claim C6, as the code has it. On a dated table with a \<^verbatim>\<open>Country\<close> column, for a date range
  that covers every date of the table and a country that is a value (not a missing one), the
  filter returns the table's rows of that country that have a date, each one once and in the
  table's order, and nothing else. A row whose date is missing is in no range and is dropped.
\<close>

theorem filter_df_full_range_keeps_dated_country:
  assumes "''Country'' \<in> set (columns t)" and "dated t"
    and "\<forall>r \<in> set (rows t). \<forall>d. get r ''Date'' = TS d \<longrightarrow> lower \<le> d \<and> d \<le> upper"
    and "country \<noteq> NA"
  shows "filter_df t country lower upper
           = Inr (t\<lparr>rows := filter (\<lambda>r. get r ''Country'' = country \<and> get r ''Date'' \<noteq> NA)
                               (rows t)\<rparr>)"
proof -
  have "matches country lower upper r
          = (get r ''Country'' = country \<and> get r ''Date'' \<noteq> NA)" if "r \<in> set (rows t)" for r
  proof -
    have "timelike (get r ''Date'')" using assms(2) that by (simp add: dated_def list_all_iff)
    then show ?thesis
      using assms(3,4) that by (cases "get r ''Date''") (auto simp: matches_def)
  qed
  then have "filter (matches country lower upper) (rows t)
          = filter (\<lambda>r. get r ''Country'' = country \<and> get r ''Date'' \<noteq> NA) (rows t)"
    by (intro filter_cong) auto
  then show ?thesis using filter_df_matches [OF assms(1,2), of country lower upper] by simp
qed

theorem filter_df_full_range_keeps_dated_country_witness:
  "''Country'' \<in> set (columns ex_blank) \<and> dated ex_blank
   \<and> getitem ex_blank ''Country'' = Inr [Str ''Kenya'', Str ''Kenya'']
   \<and> getitem ex_blank ''Date'' = Inr [TS 1, NA]
   \<and> filter_df ex_blank (Str ''Kenya'') 1 1
       = Inr (ex_blank\<lparr>rows := filter (\<lambda>r. get r ''Country'' = Str ''Kenya'' \<and> get r ''Date'' \<noteq> NA)
                               (rows ex_blank)\<rparr>)
   \<and> filter_df ex_table (Str ''Peru'') 1 4
       = Inr (ex_table\<lparr>rows := filter (\<lambda>r. get r ''Country'' = Str ''Peru'' \<and> get r ''Date'' \<noteq> NA)
                               (rows ex_table)\<rparr>)
   \<and> length (filter (\<lambda>r. get r ''Country'' = Str ''Peru'' \<and> get r ''Date'' \<noteq> NA) (rows ex_table)) = 2"
proof -
  have a: "''Country'' \<in> set (columns ex_blank)" and b: "dated ex_blank"
    by (simp_all add: ex_blank_def dated_def get_def)
  have c: "\<forall>r \<in> set (rows ex_blank). \<forall>d. get r ''Date'' = TS d \<longrightarrow> 1 \<le> d \<and> d \<le> 1"
    by (simp add: ex_blank_def get_def)
  have d: "Str ''Kenya'' \<noteq> NA" by simp
  have e: "getitem ex_blank ''Country'' = Inr [Str ''Kenya'', Str ''Kenya'']"
    "getitem ex_blank ''Date'' = Inr [TS 1, NA]"
    by (simp_all add: ex_blank_def getitem_def get_def)
  have a': "''Country'' \<in> set (columns ex_table)" and b': "dated ex_table"
    by (simp_all add: ex_table_def dated_def get_def)
  have c': "\<forall>r \<in> set (rows ex_table). \<forall>d. get r ''Date'' = TS d \<longrightarrow> 1 \<le> d \<and> d \<le> 4"
    by (simp add: ex_table_def get_def)
  have d': "Str ''Peru'' \<noteq> NA" by simp
  have e': "length (filter (\<lambda>r. get r ''Country'' = Str ''Peru'' \<and> get r ''Date'' \<noteq> NA)
      (rows ex_table)) = 2"
    by (simp add: ex_table_def get_def)
  from a b e filter_df_full_range_keeps_dated_country [OF a b c d] filter_df_full_range_keeps_dated_country [OF a' b' c' d'] e' show ?thesis by blast
qed

text \<open>
  Claim C6, as the specification states it, fails: a file with a blank date loads, the table
  has two rows of Kenya and the one date 1, and the filter for Kenya from 1 to 1 returns one
  row only.
\<close>

theorem filter_df_drops_undated_row_counterexample:
  "load_data ex_parse (Some ex_blank_file) = Inr ex_blank
   \<and> getitem ex_blank ''Country'' = Inr [Str ''Kenya'', Str ''Kenya'']
   \<and> getitem ex_blank ''Date'' = Inr [TS 1, NA]
   \<and> filter_df ex_blank (Str ''Kenya'') 1 1 = Inr ex_blank_view
   \<and> getitem ex_blank_view ''Country'' = Inr [Str ''Kenya'']"
  by (simp add: ex_blank_file_def ex_blank_def ex_blank_view_def load_defs filter_df_def
      series_eq_def series_ge_def series_le_def select_rows_def)

text \<open>
  Claim C7. On a dated table with a \<^verbatim>\<open>Country\<close> column, a country that is not among the
  values of that column gives no error: the filter returns the view with no rows.
\<close>

theorem filter_df_unknown_country_empty:
  assumes "''Country'' \<in> set (columns t)" and "dated t"
    and "getitem t ''Country'' = Inr cs" and "country \<notin> set cs"
  shows "filter_df t country lower upper = Inr (t\<lparr>rows := []\<rparr>)"
proof -
  have "filter (matches country lower upper) (rows t) = []"
    using assms(1,3,4) by (auto simp: matches_def getitem_def filter_empty_conv)
  then show ?thesis using filter_df_matches [OF assms(1,2), of country lower upper] by simp
qed

theorem filter_df_unknown_country_empty_witness:
  "getitem ex_table ''Country''
     = Inr [Str ''Kenya'', Str ''Kenya'', Str ''Kenya'', Str ''Kenya'', Str ''Peru'', Str ''Peru'']
   \<and> filter_df ex_table (Str ''Chile'') 1 4 = Inr (ex_table\<lparr>rows := []\<rparr>)"
proof -
  have a: "''Country'' \<in> set (columns ex_table)" and b: "dated ex_table"
    by (simp_all add: ex_table_def dated_def get_def)
  have c: "getitem ex_table ''Country''
     = Inr [Str ''Kenya'', Str ''Kenya'', Str ''Kenya'', Str ''Kenya'', Str ''Peru'', Str ''Peru'']"
    by (simp add: ex_table_def getitem_def get_def)
  have d: "Str ''Chile''
      \<notin> set [Str ''Kenya'', Str ''Kenya'', Str ''Kenya'', Str ''Kenya'', Str ''Peru'', Str ''Peru'']"
    by simp
  from c filter_df_unknown_country_empty [OF a b c d] show ?thesis by (rule conjI)
qed

text \<open>
  Claim C3, as the code has it. The bounds are never swapped: with the lower bound after the
  upper bound no date lies between them, and on a dated table with a \<^verbatim>\<open>Country\<close> column the
  filter returns the view with no rows, whatever the table holds.
\<close>

theorem filter_df_reversed_bounds_empty:
  assumes "''Country'' \<in> set (columns t)" and "dated t" and "upper < lower"
  shows "filter_df t country lower upper = Inr (t\<lparr>rows := []\<rparr>)"
proof -
  have "\<not> matches country lower upper r" for r
    using assms(3) by (cases "get r ''Date''") (auto simp: matches_def)
  then have "filter (matches country lower upper) (rows t) = []"
    by (simp add: filter_empty_conv)
  then show ?thesis using filter_df_matches [OF assms(1,2), of country lower upper] by simp
qed

theorem filter_df_reversed_bounds_empty_witness:
  "dated ex_table \<and> filter_df ex_table (Str ''Kenya'') 4 1 = Inr (ex_table\<lparr>rows := []\<rparr>)"
proof -
  have a: "''Country'' \<in> set (columns ex_table)" and b: "dated ex_table"
    by (simp_all add: ex_table_def dated_def get_def)
  have c: "(1::int) < 4" by simp
  from b filter_df_reversed_bounds_empty [OF a b c] show ?thesis by (rule conjI)
qed

text \<open>
  Claim C3, as the specification states it, fails: on the sample table, with the bounds 4
  and 1 the view differs from the view with the bounds 1 and 4, and so does the pair of view
  and headline numbers.
\<close>

theorem reversed_bounds_not_swapped_counterexample:
  "filter_df ex_table (Str ''Kenya'') 4 1 \<noteq> filter_df ex_table (Str ''Kenya'') 1 4
   \<and> view_and_summary ex_table (Str ''Kenya'') 4 1
       \<noteq> view_and_summary ex_table (Str ''Kenya'') 1 4"
  by (simp add: kpi_defs ex_defs)

section \<open>The headline numbers of an empty view\<close>

text \<open>
  On a view without rows the headline numbers are never computed: the first maximum is
  missing and its \<^verbatim>\<open>int\<close> raises, or the \<^verbatim>\<open>New_Cases\<close> column is not there.
\<close>

lemma kpi_metrics_empty:
  assumes "rows v = []"
  shows "kpi_metrics v
           = (if ''Confirmed'' \<in> set (columns v) \<or> ''New_Cases'' \<in> set (columns v)
              then Inl ValueError else Inl (KeyError ''New_Cases''))"
  using assms by (simp add: kpi_metrics_def bind_def getitem_def series_max_def py_int_def)

text \<open>
  Claim C2. On the sample table, the country Kenya and the date range from 10 to 11, which
  holds no row, the view is empty and the headline numbers are not computed: \<^verbatim>\<open>int\<close> of the
  missing maximum of \<^verbatim>\<open>Confirmed\<close> raises \<^verbatim>\<open>ValueError\<close> at line 96.
\<close>

theorem kpi_metrics_empty_view_raises:
  "filter_df ex_table (Str ''Kenya'') 10 11 = Inr (ex_table\<lparr>rows := []\<rparr>)
   \<and> kpi_metrics (ex_table\<lparr>rows := []\<rparr>) = Inl ValueError
   \<and> view_and_summary ex_table (Str ''Kenya'') 10 11 = Inl ValueError"
  by (simp add: kpi_defs ex_defs)

section \<open>The loader's results\<close>

lemma those_map_Some:
  "list_all (\<lambda>x. f x \<noteq> None) xs \<Longrightarrow>
     those (map f xs) = Some (map (\<lambda>x. case f x of None \<Rightarrow> d | Some v \<Rightarrow> v) xs)"
  by (induction xs) auto

lemma those_map_None:
  "\<not> list_all (\<lambda>x. f x \<noteq> None) xs \<Longrightarrow> those (map f xs) = None"
  by (induction xs) (auto split: option.splits)

lemma to_datetime_col:
  "to_datetime parse (map (\<lambda>r. get r ''Date'') (rows t))
     = (if dates_parse parse t
        then Inr (map (\<lambda>r. case to_datetime1 parse (get r ''Date'') of None \<Rightarrow> NA | Some v \<Rightarrow> v)
                   (rows t))
        else Inl ValueError)"
  using those_map_Some [of "\<lambda>r. to_datetime1 parse (get r ''Date'')" "rows t" NA]
    those_map_None [of "\<lambda>r. to_datetime1 parse (get r ''Date'')" "rows t"]
  by (simp add: to_datetime_def dates_parse_def comp_def)

lemma load_data_steps:
  "load_data parse (Some t)
     = (if ''Date'' \<notin> set (columns t) then Inl (KeyError ''Date'')
        else if \<not> dates_parse parse t then Inl ValueError
        else ensure_new_cases (with_dates parse t))"
  by (simp add: load_data_def getitem_def to_datetime_col with_dates_def)

lemma columns_with_dates:
  "''Date'' \<in> set (columns t) \<Longrightarrow> columns (with_dates parse t) = columns t"
  by (simp add: with_dates_def setitem_def)

lemma length_rows_with_dates: "length (rows (with_dates parse t)) = length (rows t)"
  by (simp add: with_dates_def setitem_def)

lemma get_update: "get (AList.update c v r) c' = (if c' = c then v else get r c')"
  by (simp add: get_def update_conv')

text \<open>
  Claim C5. For a file with neither a \<^verbatim>\<open>New_Cases\<close> nor a \<^verbatim>\<open>Confirmed\<close> column, whose dates
  convert, the loader returns a table; \<^verbatim>\<open>New_Cases\<close> is its last column and holds zero in
  every row, one for each row of the file, whatever the other columns hold.
\<close>

theorem load_data_no_confirmed_zero:
  assumes "''New_Cases'' \<notin> set (columns raw)" and "''Confirmed'' \<notin> set (columns raw)"
    and "''Date'' \<in> set (columns raw)" and "dates_parse parse raw"
  shows "\<exists>t. load_data parse (Some raw) = Inr t
           \<and> columns t = columns raw @ [''New_Cases'']
           \<and> getitem t ''New_Cases'' = Inr (replicate (length (rows raw)) (Num 0))"
proof -
  let ?t = "setitem_scalar (with_dates parse raw) ''New_Cases'' (Num 0)"
  have "load_data parse (Some raw) = Inr ?t"
    using assms by (simp add: load_data_steps ensure_new_cases_def columns_with_dates)
  moreover have "columns ?t = columns raw @ [''New_Cases'']"
    using assms by (simp add: setitem_scalar_def columns_with_dates)
  moreover have "getitem ?t ''New_Cases'' = Inr (replicate (length (rows raw)) (Num 0))"
    using assms
    by (simp add: getitem_def setitem_scalar_def columns_with_dates get_update comp_def
        map_replicate_const length_rows_with_dates)
  ultimately show ?thesis by blast
qed

theorem load_data_no_confirmed_zero_witness:
  "''New_Cases'' \<notin> set (columns ex_no_confirmed) \<and> ''Confirmed'' \<notin> set (columns ex_no_confirmed)
   \<and> ''Date'' \<in> set (columns ex_no_confirmed) \<and> dates_parse ex_parse ex_no_confirmed
   \<and> (\<exists>t. load_data ex_parse (Some ex_no_confirmed) = Inr t
           \<and> columns t = columns ex_no_confirmed @ [''New_Cases'']
           \<and> getitem t ''New_Cases'' = Inr (replicate (length (rows ex_no_confirmed)) (Num 0)))"
proof -
  have a: "''New_Cases'' \<notin> set (columns ex_no_confirmed)"
    and b: "''Confirmed'' \<notin> set (columns ex_no_confirmed)"
    and c: "''Date'' \<in> set (columns ex_no_confirmed)"
    and d: "dates_parse ex_parse ex_no_confirmed"
    by (simp_all add: ex_no_confirmed_def dates_parse_def ex_parse_def get_def)
  from a b c d load_data_no_confirmed_zero [OF a b c d] show ?thesis by simp
qed

text \<open>
  Claim C4, as the code has it. The loader validates no schema. A file without a \<^verbatim>\<open>Date\<close>
  column fails with the \<^verbatim>\<open>KeyError\<close> of line 26, which names \<^verbatim>\<open>Date\<close> (and only \<^verbatim>\<open>Date\<close>,
  also when \<^verbatim>\<open>Country\<close> is missing too). A file with dates that convert and without a
  \<^verbatim>\<open>Country\<close> column fails, with the \<^verbatim>\<open>KeyError\<close> of line 31 that names \<^verbatim>\<open>Country\<close>, exactly
  when \<^verbatim>\<open>New_Cases\<close> is absent and \<^verbatim>\<open>Confirmed\<close> is present; otherwise the loader returns a
  table.
\<close>

theorem load_data_missing_column:
  "(''Date'' \<notin> set (columns raw) \<longrightarrow> load_data parse (Some raw) = Inl (KeyError ''Date''))
   \<and> (''Date'' \<in> set (columns raw) \<and> dates_parse parse raw \<and> ''Country'' \<notin> set (columns raw) \<longrightarrow>
        (if ''New_Cases'' \<notin> set (columns raw) \<and> ''Confirmed'' \<in> set (columns raw)
         then load_data parse (Some raw) = Inl (KeyError ''Country'')
         else \<exists>t. load_data parse (Some raw) = Inr t))"
  by (simp add: load_data_steps ensure_new_cases_def columns_with_dates derive_new_cases_def
      sort_values_def)

theorem load_data_missing_column_witness:
  "load_data ex_parse (Some ex_no_date) = Inl (KeyError ''Date'')
   \<and> load_data ex_parse (Some ex_no_country_confirmed) = Inl (KeyError ''Country'')
   \<and> (\<exists>t. load_data ex_parse (Some ex_no_country) = Inr t)"
proof -
  have a: "''Date'' \<notin> set (columns ex_no_date)"
    by (simp add: ex_no_date_def)
  have b: "''Date'' \<in> set (columns ex_no_country_confirmed)
      \<and> dates_parse ex_parse ex_no_country_confirmed
      \<and> ''Country'' \<notin> set (columns ex_no_country_confirmed)"
    and b': "''New_Cases'' \<notin> set (columns ex_no_country_confirmed)
      \<and> ''Confirmed'' \<in> set (columns ex_no_country_confirmed)"
    by (simp_all add: ex_no_country_confirmed_def dates_parse_def ex_parse_def get_def)
  have c: "''Date'' \<in> set (columns ex_no_country) \<and> dates_parse ex_parse ex_no_country
      \<and> ''Country'' \<notin> set (columns ex_no_country)"
    and c': "\<not> (''New_Cases'' \<notin> set (columns ex_no_country)
      \<and> ''Confirmed'' \<in> set (columns ex_no_country))"
    by (simp_all add: ex_no_country_def dates_parse_def ex_parse_def get_def)
  from a load_data_missing_column [of ex_no_date ex_parse]
  have 1: "load_data ex_parse (Some ex_no_date) = Inl (KeyError ''Date'')" by blast
  from b b' load_data_missing_column [of ex_no_country_confirmed ex_parse]
  have 2: "load_data ex_parse (Some ex_no_country_confirmed) = Inl (KeyError ''Country'')"
    by presburger
  from c c' load_data_missing_column [of ex_no_country ex_parse]
  have 3: "\<exists>t. load_data ex_parse (Some ex_no_country) = Inr t"
    by presburger
  from 1 2 3 show ?thesis by blast
qed

text \<open>
  Claim C4, as the specification states it, fails: a file with the columns \<^verbatim>\<open>Date\<close> and
  \<^verbatim>\<open>New_Cases\<close> and no \<^verbatim>\<open>Country\<close> column is loaded without any error.
\<close>

theorem load_data_missing_country_succeeds_counterexample:
  "''Country'' \<notin> set (columns ex_no_country)
   \<and> load_data ex_parse (Some ex_no_country)
       = Inr \<lparr>columns = [''Date'', ''New_Cases''],
              rows = [[(''Date'', TS 1), (''New_Cases'', Num 4)],
                      [(''Date'', TS 2), (''New_Cases'', Num 1)]]\<rparr>"
  by (simp add: ex_no_country_def load_defs)

section \<open>Differences within groups of a sorted frame\<close>



lemma length_groupby_diff:
  "length ks = length vs \<Longrightarrow> length (groupby_diff prev ks vs) = length ks"
  by (induction prev ks vs rule: groupby_diff.induct) auto



section \<open>The derived column\<close>

lemma length_fillna: "length (fillna d vs) = length vs"
  by (simp add: fillna_def)


lemma map_get_updates_other:
  "length rs = length vs \<Longrightarrow> c' \<noteq> c \<Longrightarrow>
     map (\<lambda>r. get r c') (map (\<lambda>(r, v). AList.update c v r) (zip rs vs)) = map (\<lambda>r. get r c') rs"
  by (induction rs vs rule: list_induct2) (auto simp: get_update)

lemma map_get_updates_same:
  "length rs = length vs \<Longrightarrow>
     map (\<lambda>r. get r c) (map (\<lambda>(r, v). AList.update c v r) (zip rs vs)) = vs"
  by (induction rs vs rule: list_induct2) (auto simp: get_update)

lemma map_row_key_updates:
  "length rs = length vs \<Longrightarrow> c \<notin> set cols \<Longrightarrow>
     map (row_key cols) (map (\<lambda>(r, v). AList.update c v r) (zip rs vs)) = map (row_key cols) rs"
proof (induction rs vs rule: list_induct2)
  case Nil
  then show ?case by simp
next
  case (Cons r rs v vs)
  have "row_key cols (AList.update c v r) = row_key cols r"
    using Cons.prems by (auto simp: row_key_def get_update)
  then show ?case using Cons by simp
qed

lemma update_update_same: "AList.update c v (AList.update c v r) = AList.update c v r"
  by (rule update_triv) (simp add: update_conv')

lemma updates_idem:
  "length rs = length vs \<Longrightarrow>
     map (\<lambda>(r, v). AList.update c v r) (zip (map (\<lambda>(r, v). AList.update c v r) (zip rs vs)) vs)
       = map (\<lambda>(r, v). AList.update c v r) (zip rs vs)"
  by (induction rs vs rule: list_induct2) (auto simp: update_update_same)


lemma derive_new_cases_Inr:
  assumes "derive_new_cases t0 = Inr t"
  shows "''Country'' \<in> set (columns t0) \<and> ''Date'' \<in> set (columns t0)
       \<and> ''Confirmed'' \<in> set (columns t0)
       \<and> list_all numeric
           (map (\<lambda>r. get r ''Confirmed'') (sort_key (row_key [''Country'', ''Date'']) (rows t0)))
       \<and> t = setitem (t0\<lparr>rows := sort_key (row_key [''Country'', ''Date'']) (rows t0)\<rparr>)
               ''New_Cases''
               (fillna (Num 0)
                 (groupby_diff []
                   (map (\<lambda>r. get r ''Country'') (sort_key (row_key [''Country'', ''Date'']) (rows t0)))
                   (map (\<lambda>r. get r ''Confirmed'')
                     (sort_key (row_key [''Country'', ''Date'']) (rows t0)))))"
  using assms
  by (auto simp: derive_new_cases_def sort_values_def groupby_diff_col_def getitem_def
      split: if_splits sum.splits list.splits)

text \<open>The columns of the derived table, one by one.\<close>

lemma derive_new_cases_columns:
  assumes "derive_new_cases t0 = Inr t"
  shows "map (row_key [''Country'', ''Date'']) (rows t)
           = map (row_key [''Country'', ''Date''])
               (sort_key (row_key [''Country'', ''Date'']) (rows t0))"
    and "map (\<lambda>r. get r ''Country'') (rows t)
           = map (\<lambda>r. get r ''Country'') (sort_key (row_key [''Country'', ''Date'']) (rows t0))"
    and "map (\<lambda>r. get r ''Date'') (rows t)
           = map (\<lambda>r. get r ''Date'') (sort_key (row_key [''Country'', ''Date'']) (rows t0))"
    and "map (\<lambda>r. get r ''Confirmed'') (rows t)
           = map (\<lambda>r. get r ''Confirmed'') (sort_key (row_key [''Country'', ''Date'']) (rows t0))"
    and "map (\<lambda>r. get r ''New_Cases'') (rows t)
           = fillna (Num 0)
               (groupby_diff [] (map (\<lambda>r. get r ''Country'') (rows t))
                  (map (\<lambda>r. get r ''Confirmed'') (rows t)))"
    and "length (rows t) = length (rows t0)"
proof -
  let ?rs = "sort_key (row_key [''Country'', ''Date'']) (rows t0)"
  let ?d = "fillna (Num 0)
     (groupby_diff [] (map (\<lambda>r. get r ''Country'') ?rs) (map (\<lambda>r. get r ''Confirmed'') ?rs))"
  have l: "length ?rs = length ?d"
    by (simp add: length_fillna length_groupby_diff)
  have r: "rows t = map (\<lambda>(r, v). AList.update ''New_Cases'' v r) (zip ?rs ?d)"
    using derive_new_cases_Inr [OF assms] by (simp add: setitem_def)
  show k: "map (row_key [''Country'', ''Date'']) (rows t) = map (row_key [''Country'', ''Date'']) ?rs"
    unfolding r by (rule map_row_key_updates [OF l]) simp
  show c: "map (\<lambda>r. get r ''Country'') (rows t) = map (\<lambda>r. get r ''Country'') ?rs"
    unfolding r by (rule map_get_updates_other [OF l]) simp
  show "map (\<lambda>r. get r ''Date'') (rows t) = map (\<lambda>r. get r ''Date'') ?rs"
    unfolding r by (rule map_get_updates_other [OF l]) simp
  show f: "map (\<lambda>r. get r ''Confirmed'') (rows t) = map (\<lambda>r. get r ''Confirmed'') ?rs"
    unfolding r by (rule map_get_updates_other [OF l]) simp
  have "map (\<lambda>r. get r ''New_Cases'') (rows t) = ?d"
    unfolding r by (rule map_get_updates_same [OF l])
  then show "map (\<lambda>r. get r ''New_Cases'') (rows t)
           = fillna (Num 0)
               (groupby_diff [] (map (\<lambda>r. get r ''Country'') (rows t))
                  (map (\<lambda>r. get r ''Confirmed'') (rows t)))"
    by (simp only: c f)
  show "length (rows t) = length (rows t0)"
    unfolding r using l by simp
qed

lemma derive_new_cases_sorted:
  assumes "derive_new_cases t0 = Inr t"
  shows "sorted (map (row_key [''Country'', ''Date'']) (rows t))"
  by (simp only: derive_new_cases_columns(1) [OF assms] sorted_sort_key)



lemma rows_with_dates:
  "rows (with_dates parse t)
     = map (\<lambda>r. AList.update ''Date''
              (case to_datetime1 parse (get r ''Date'') of None \<Rightarrow> NA | Some v \<Rightarrow> v) r) (rows t)"
proof -
  have "zip xs (map f xs) = map (\<lambda>x. (x, f x)) xs" for f :: "row \<Rightarrow> cell" and xs
    by (induction xs) auto
  then show ?thesis by (simp add: with_dates_def setitem_def comp_def)
qed




lemma load_data_returns:
  assumes "''New_Cases'' \<notin> set (columns raw)" and "''Confirmed'' \<in> set (columns raw)"
    and "''Country'' \<in> set (columns raw)" and "''Date'' \<in> set (columns raw)"
    and "dates_parse parse raw" and "list_all (\<lambda>r. numeric (get r ''Confirmed'')) (rows raw)"
  shows "\<exists>t. load_data parse (Some raw) = Inr t"
proof -
  have "list_all (\<lambda>r. numeric (get r ''Confirmed'')) (rows (with_dates parse raw))"
    using assms(6) by (simp add: rows_with_dates list_all_iff get_update)
  then have "list_all numeric (map (\<lambda>r. get r ''Confirmed'')
      (sort_key (row_key [''Country'', ''Date'']) (rows (with_dates parse raw))))"
    by (simp add: list_all_iff)
  then show ?thesis
    using assms(1-5)
    by (simp add: load_data_steps ensure_new_cases_def columns_with_dates derive_new_cases_def
        sort_values_def groupby_diff_col_def getitem_def)
qed





text \<open>
  Claim C9. When lines 31 and 32 have derived a table, deriving \<^verbatim>\<open>New_Cases\<close> once more from
  that table gives the same table, and so does the guarded step of lines 29 to 34, which finds
  the column present and leaves the table alone.
\<close>

theorem derive_new_cases_idempotent:
  assumes "derive_new_cases t0 = Inr t"
  shows "derive_new_cases t = Inr t \<and> ensure_new_cases t = Inr t"
proof -
  let ?key = "row_key [''Country'', ''Date'']"
  let ?rs = "sort_key ?key (rows t0)"
  let ?d = "fillna (Num 0)
     (groupby_diff [] (map (\<lambda>r. get r ''Country'') ?rs) (map (\<lambda>r. get r ''Confirmed'') ?rs))"
  note c = derive_new_cases_columns [OF assms]
  have l: "length ?rs = length ?d"
    by (simp add: length_fillna length_groupby_diff)
  have t: "t = setitem (t0\<lparr>rows := ?rs\<rparr>) ''New_Cases'' ?d"
    and cols0: "''Country'' \<in> set (columns t0)" "''Date'' \<in> set (columns t0)"
      "''Confirmed'' \<in> set (columns t0)"
    and num: "list_all numeric (map (\<lambda>r. get r ''Confirmed'') ?rs)"
    using derive_new_cases_Inr [OF assms] by simp_all
  have r: "rows t = map (\<lambda>(r, v). AList.update ''New_Cases'' v r) (zip ?rs ?d)"
    by (subst t) (simp add: setitem_def)
  have cols: "''Country'' \<in> set (columns t)" "''Date'' \<in> set (columns t)"
    "''Confirmed'' \<in> set (columns t)" "''New_Cases'' \<in> set (columns t)"
    using cols0 by (subst t, simp add: setitem_def)+
  have "sort_key ?key (rows t) = rows t"
    by (rule sort_key_id_if_sorted) (rule derive_new_cases_sorted [OF assms])
  then have s: "sort_values t [''Country'', ''Date''] = Inr t"
    using cols by (simp add: sort_values_def)
  have d: "fillna (Num 0)
     (groupby_diff [] (map (\<lambda>r. get r ''Country'') (rows t)) (map (\<lambda>r. get r ''Confirmed'') (rows t)))
     = ?d"
    by (simp only: c(2,4))
  have g: "groupby_diff_col t ''Country'' ''Confirmed''
      = Inr (groupby_diff [] (map (\<lambda>r. get r ''Country'') (rows t))
               (map (\<lambda>r. get r ''Confirmed'') (rows t)))"
    using cols num by (simp add: groupby_diff_col_def getitem_def c(4))
  have "map (\<lambda>(r, v). AList.update ''New_Cases'' v r) (zip (rows t) ?d) = rows t"
    unfolding r by (rule updates_idem [OF l])
  then have "setitem t ''New_Cases'' ?d = t"
    using cols(4) by (simp add: setitem_def)
  then have "derive_new_cases t = Inr t"
    by (simp add: derive_new_cases_def s g d)
  moreover have "ensure_new_cases t = Inr t"
    using cols(4) by (simp add: ensure_new_cases_def)
  ultimately show ?thesis by (rule conjI)
qed

theorem derive_new_cases_idempotent_witness:
  "derive_new_cases ex_unsorted = Inr ex_derived
   \<and> derive_new_cases ex_derived = Inr ex_derived \<and> ensure_new_cases ex_derived = Inr ex_derived"
proof -
  have h: "derive_new_cases ex_unsorted = Inr ex_derived"
    by (simp add: ex_unsorted_def ex_derived_def load_defs)
  from h derive_new_cases_idempotent [OF h] show ?thesis by (rule conjI)
qed

section \<open>The filter writes to no object of the store\<close>

lemma alloc_old: "b < fresh s \<Longrightarrow> heap (snd (alloc s x)) b = heap s b"
  by (simp add: alloc_def)

lemma alloc_new: "heap (snd (alloc s x)) (fst (alloc s x)) = Some x"
  by (simp add: alloc_def)

lemma alloc_fresh: "fresh (snd (alloc s x)) = Suc (fresh s)" "fst (alloc s x) = fresh s"
  by (simp_all add: alloc_def)

lemma ref_getitem_alloc:
  assumes "ref_getitem s a c = Inr (r, s')"
  shows "\<exists>t vs. heap s a = Some (Frame t) \<and> getitem t c = Inr vs \<and> (r, s') = alloc s (Series vs)"
  using assms by (auto simp: ref_getitem_def split: option.splits obj.splits sum.splits)

lemma ref_eq_alloc:
  assumes "ref_eq s a c = Inr (r, s')"
  shows "\<exists>vs. heap s a = Some (Series vs) \<and> (r, s') = alloc s (Mask (series_eq vs c))"
  using assms by (auto simp: ref_eq_def split: option.splits obj.splits)

lemma ref_ge_alloc:
  assumes "ref_ge s a b = Inr (r, s')"
  shows "\<exists>vs m. heap s a = Some (Series vs) \<and> series_ge vs b = Inr m \<and> (r, s') = alloc s (Mask m)"
  using assms by (auto simp: ref_ge_def split: option.splits obj.splits sum.splits)

lemma ref_le_alloc:
  assumes "ref_le s a b = Inr (r, s')"
  shows "\<exists>vs m. heap s a = Some (Series vs) \<and> series_le vs b = Inr m \<and> (r, s') = alloc s (Mask m)"
  using assms by (auto simp: ref_le_def split: option.splits obj.splits sum.splits)

lemma ref_and_alloc:
  assumes "ref_and s a b = Inr (r, s')"
  shows "\<exists>x y. heap s a = Some (Mask x) \<and> heap s b = Some (Mask y)
           \<and> (r, s') = alloc s (Mask (map (\<lambda>(p, q). p \<and> q) (zip x y)))"
  using assms by (auto simp: ref_and_def split: option.splits obj.splits)

lemma ref_select_alloc:
  assumes "ref_select s a m = Inr (r, s')"
  shows "\<exists>t x. heap s a = Some (Frame t) \<and> heap s m = Some (Mask x)
           \<and> (r, s') = alloc s (Frame (select_rows t x))"
  using assms by (auto simp: ref_select_def split: option.splits obj.splits)

lemma bind_Inr:
  "bind m f = Inr y \<Longrightarrow> \<exists>x. m = Inr x \<and> f x = Inr y"
  by (cases m) (auto simp: bind_def)

lemmas ref_defs = ref_getitem_def ref_eq_def ref_ge_def ref_le_def ref_and_def ref_select_def
  alloc_def

lemma and_and_masks:
  "map (\<lambda>(p, q). p \<and> q) (zip (map (\<lambda>(p, q). p \<and> q) (zip xs ys)) zs)
     = map (\<lambda>(a, b, c). a \<and> b \<and> c) (zip xs (zip ys zs))"
proof (induction xs arbitrary: ys zs)
  case Nil
  then show ?case by simp
next
  case (Cons x xs)
  then show ?case by (cases ys; cases zs) auto
qed

lemma filter_step_trace:
  assumes "filter_step s tbl country lower upper = Inr (v, s')" and "tbl < fresh s"
  shows "\<exists>t view. heap s tbl = Some (Frame t) \<and> filter_df t country lower upper = Inr view
           \<and> heap s' v = Some (Frame view) \<and> v = fresh s + 8 \<and> fresh s' = fresh s + 9
           \<and> (\<forall>b < fresh s. heap s' b = heap s b)"
proof -
  from assms(1) obtain t where t: "heap s tbl = Some (Frame t)"
    by (auto simp: filter_step_def ref_getitem_def dest!: bind_Inr split: option.splits obj.splits)
  show ?thesis
    using assms t
    by (auto simp: filter_step_def bind_def ref_defs filter_df_def and_and_masks
        split: sum.splits if_splits)
qed

text \<open>
  Claim C8. When lines 73 to 77 return a view, the object that \<^verbatim>\<open>df_all\<close> holds is after them
  what it was before, row for row and value for value, and so is every object that the store
  held before: the filter writes to new addresses only. The view is another object than the
  table, and it holds the rows that the filter selects from the table.
\<close>

theorem filter_step_keeps_table:
  assumes "filter_step s tbl country lower upper = Inr (v, s')" and "tbl < fresh s"
  shows "heap s' tbl = heap s tbl \<and> v \<noteq> tbl \<and> (\<forall>b < fresh s. heap s' b = heap s b)
       \<and> (\<exists>t view. heap s tbl = Some (Frame t) \<and> filter_df t country lower upper = Inr view
              \<and> heap s' v = Some (Frame view))"
proof -
  from filter_step_trace [OF assms] obtain t view where
    h: "heap s tbl = Some (Frame t)" "filter_df t country lower upper = Inr view"
      "heap s' v = Some (Frame view)" "v = fresh s + 8" "\<forall>b < fresh s. heap s' b = heap s b"
    by blast
  have "heap s' tbl = heap s tbl" using h(5) assms(2) by simp
  moreover have "v \<noteq> tbl" using h(4) assms(2) by simp
  ultimately show ?thesis using h(1,2,3,5) by blast
qed

lemma filter_step_returns:
  assumes "heap s tbl = Some (Frame t)" and "tbl < fresh s" and "filter_df t country lower upper = Inr view"
  shows "\<exists>v s'. filter_step s tbl country lower upper = Inr (v, s')"
  using assms
  by (auto simp: filter_step_def bind_def ref_defs filter_df_def
        split: sum.splits if_splits)

theorem filter_step_keeps_table_witness:
  "\<exists>v s'. filter_step ex_store 0 (Str ''Kenya'') 2 3 = Inr (v, s')
      \<and> heap ex_store 0 = Some (Frame ex_table) \<and> heap s' 0 = Some (Frame ex_table)
      \<and> v = 9 \<and> heap s' v = Some (Frame ex_view)"
proof -
  have a: "heap ex_store 0 = Some (Frame ex_table)" and b: "0 < fresh ex_store"
    by (simp_all add: ex_store_def)
  have f: "filter_df ex_table (Str ''Kenya'') 2 3 = Inr ex_view"
    by (simp add: ex_defs)
  from filter_step_returns [OF a b f]
  obtain v s' where h: "filter_step ex_store 0 (Str ''Kenya'') 2 3 = Inr (v, s')" by blast
  from filter_step_keeps_table [OF h b] a have k: "heap s' 0 = Some (Frame ex_table)" by simp
  from filter_step_trace [OF h b] a f
  have "v = 9 \<and> heap s' v = Some (Frame ex_view)" by (auto simp: ex_store_def)
  with h a k show ?thesis by blast
qed

text \<open>
  The assignment of a column, in contrast, changes the frame at the address it is applied to,
  and nothing else.
\<close>

lemma ref_setitem_writes:
  assumes "ref_setitem s a c v = Inr s'"
  shows "\<exists>t vs. heap s a = Some (Frame t) \<and> heap s v = Some (Series vs)
           \<and> heap s' a = Some (Frame (setitem t c vs)) \<and> (\<forall>b. b \<noteq> a \<longrightarrow> heap s' b = heap s b)"
  using assms by (auto simp: ref_setitem_def split: option.splits obj.splits)

section \<open>Every loaded table is dated\<close>

lemma to_datetime1_timelike:
  "timelike (case to_datetime1 parse c of None \<Rightarrow> NA | Some v \<Rightarrow> v)"
  by (cases c) (auto split: option.splits)

lemma dated_with_dates:
  "''Date'' \<in> set (columns t) \<Longrightarrow> dated (with_dates parse t)"
  by (simp add: dated_def columns_with_dates rows_with_dates list_all_iff get_update
      to_datetime1_timelike)

lemma ensure_new_cases_dated:
  assumes "dated t0" and "ensure_new_cases t0 = Inr t"
  shows "dated t"
proof (cases "''New_Cases'' \<in> set (columns t0)")
  case True
  then show ?thesis using assms by (simp add: ensure_new_cases_def)
next
  case nc: False
  show ?thesis
  proof (cases "''Confirmed'' \<in> set (columns t0)")
    case False
    then have "t = setitem_scalar t0 ''New_Cases'' (Num 0)"
      using nc assms(2) by (simp add: ensure_new_cases_def)
    then show ?thesis
      using assms(1) by (simp add: dated_def setitem_scalar_def list_all_iff get_update)
  next
    case True
    then have d: "derive_new_cases t0 = Inr t"
      using nc assms(2) by (simp add: ensure_new_cases_def)
    have "list_all timelike (map (\<lambda>r. get r ''Date'') (rows t))"
      using assms(1)
      by (simp only: derive_new_cases_columns(3) [OF d]) (simp add: dated_def list_all_iff)
    moreover have "''Date'' \<in> set (columns t)"
      using derive_new_cases_Inr [OF d] by (auto simp: setitem_def)
    ultimately show ?thesis by (simp add: dated_def list_all_iff)
  qed
qed

lemma load_data_dated:
  assumes "load_data parse file = Inr t"
  shows "dated t"
proof (cases "file")
  case None
  then show ?thesis using assms by (simp add: load_data_def)
next
  case (Some raw)
  then have "''Date'' \<in> set (columns raw)" and "ensure_new_cases (with_dates parse raw) = Inr t"
    using assms by (auto simp: load_data_steps split: if_splits)
  then show ?thesis using dated_with_dates ensure_new_cases_dated by blast
qed

end
